theory Spec2Isabelle
  imports Complex_Main "HOL-Library.Char_ord" "HOL-Library.List_Lexorder"
    "HOL-Library.Product_Lexorder"
begin

section \<open>Values\<close>

text \<open>
  A Python float is a finite rational or one of the three special values. Comparisons
  with \<open>NaN\<close> are false, as in IEEE 754. The arithmetic of the data pipeline is
  modelled exactly, over \<open>rat\<close>; rounding of intermediate results is not modelled.
\<close>

datatype pyfloat = Fin rat | NaN | PosInf | NegInf

fun pf_less :: "pyfloat \<Rightarrow> pyfloat \<Rightarrow> bool" where
  "pf_less NaN _ = False"
| "pf_less _ NaN = False"
| "pf_less (Fin a) (Fin b) = (a < b)"
| "pf_less (Fin _) PosInf = True"
| "pf_less (Fin _) NegInf = False"
| "pf_less PosInf _ = False"
| "pf_less NegInf NegInf = False"
| "pf_less NegInf _ = True"

text \<open>Python's \<open>min(a, b)\<close> and \<open>max(a, b)\<close> return \<open>a\<close> unless \<open>b\<close> is strictly better.\<close>

definition py_min :: "pyfloat \<Rightarrow> pyfloat \<Rightarrow> pyfloat" where
  "py_min a b = (if pf_less b a then b else a)"

definition py_max :: "pyfloat \<Rightarrow> pyfloat \<Rightarrow> pyfloat" where
  "py_max a b = (if pf_less a b then b else a)"

type_synonym exn = string

text \<open>\<open>round(x)\<close> on a float: ties go to the even neighbour; \<open>nan\<close> and the infinities raise.\<close>

definition round_half_even :: "rat \<Rightarrow> int" where
  "round_half_even q =
     (let f = \<lfloor>q\<rfloor>; d = q - of_int f
      in if d < 1 / 2 then f else if 1 / 2 < d then f + 1
         else if even f then f else f + 1)"

fun py_round :: "pyfloat \<Rightarrow> exn + int" where
  "py_round (Fin q) = Inr (round_half_even q)"
| "py_round NaN = Inl ''ValueError''"
| "py_round PosInf = Inl ''OverflowError''"
| "py_round NegInf = Inl ''OverflowError''"

text \<open>One cell of a data frame: a number, a string, a boolean indicator or a missing value.\<close>

datatype cell = Num rat | Str string | Flag bool | Missing

text \<open>
  A one-row data frame, as \<open>pd.DataFrame([features])\<close> builds it from a dict: the
  columns in insertion order, each with its value. Built from a dict, the column names are
  distinct.
\<close>

type_synonym frame = "(string \<times> cell) list"

definition columns :: "frame \<Rightarrow> string list" where
  "columns X = map fst X"

section \<open>The model holder and the artifact file\<close>

datatype regressor = DecisionTreeRegressor | LinearRegression | KNeighborsRegressor
  | LogisticRegression

text \<open>
  The scikit-learn pipeline is opaque: a fitted pipeline is the function it computes on a
  one-row frame (which may raise); an unfitted one raises on \<open>predict\<close>.
\<close>

datatype pipeline = Unfitted regressor | Fitted regressor "frame \<Rightarrow> exn + pyfloat"

fun pipeline_predict :: "pipeline \<Rightarrow> frame \<Rightarrow> exn + pyfloat" where
  "pipeline_predict (Unfitted _) X = Inl ''NotFittedError''"
| "pipeline_predict (Fitted _ f) X = f X"

datatype mval = MFloat pyfloat | MInt int | MStr string

type_synonym metrics = "(string \<times> mval) list"

type_synonym timestamp = int

record SalesForecastModel =
  model :: "pipeline option"
  features :: "string list option"
  metrics :: "metrics option"
  trained_date :: "timestamp option"
  model_type :: string

definition init :: SalesForecastModel where
  "init = \<lparr>model = None, features = None, metrics = None, trained_date = None,
            model_type = ''decision_tree''\<rparr>"

text \<open>
  The dict that \<open>joblib.dump\<close> writes. A key may be absent from a dict read back from
  disk; a present key holds the Python value, which may be \<open>None\<close>. Serialisation itself
  is taken to be lossless.
\<close>

datatype 'a entry = Absent | Present 'a

record artifact =
  art_model :: "pipeline option entry"
  art_features :: "string list option entry"
  art_metrics :: "metrics option entry"
  art_trained_date :: "timestamp option entry"
  art_model_type :: "string entry"

datatype disk_file = Pickle artifact | Garbage

type_synonym filesystem = "string \<rightharpoonup> disk_file"

text \<open>
  \<open>os.makedirs(os.path.dirname(MODEL_PATH), exist_ok=True)\<close> raises when the path has
  no directory part (the directory name is the empty string).
\<close>

definition dirname_empty :: "string \<Rightarrow> bool" where
  "dirname_empty path = (CHR ''/'' \<notin> set path)"

definition save :: "string \<Rightarrow> SalesForecastModel \<Rightarrow> filesystem \<Rightarrow> exn + filesystem" where
  "save MODEL_PATH self fs =
     (if dirname_empty MODEL_PATH then Inl ''FileNotFoundError''
      else Inr (fs(MODEL_PATH \<mapsto> Pickle
        \<lparr>art_model = Present (model self),
         art_features = Present (features self),
         art_metrics = Present (metrics self),
         art_trained_date = Present (trained_date self),
         art_model_type = Present (model_type self)\<rparr>)))"

text \<open>
  \<open>load\<close> assigns the fields one after the other inside a \<open>try\<close>; the first missing key
  raises \<open>KeyError\<close>, which the handler turns into \<open>False\<close>, the assignments already made
  staying in place. \<open>model_type\<close> is read with \<open>data.get\<close> and a default.
\<close>

definition load :: "string \<Rightarrow> SalesForecastModel \<Rightarrow> filesystem \<Rightarrow> bool \<times> SalesForecastModel" where
  "load MODEL_PATH self fs =
     (case fs MODEL_PATH of
        None \<Rightarrow> (False, self)
      | Some Garbage \<Rightarrow> (False, self)
      | Some (Pickle data) \<Rightarrow>
          (case art_model data of
             Absent \<Rightarrow> (False, self)
           | Present m \<Rightarrow>
               let s1 = self\<lparr>model := m\<rparr> in
               (case art_features data of
                  Absent \<Rightarrow> (False, s1)
                | Present fe \<Rightarrow>
                    let s2 = s1\<lparr>features := fe\<rparr> in
                    (case art_metrics data of
                       Absent \<Rightarrow> (False, s2)
                     | Present me \<Rightarrow>
                         let s3 = s2\<lparr>metrics := me\<rparr> in
                         (case art_trained_date data of
                            Absent \<Rightarrow> (False, s3)
                          | Present td \<Rightarrow>
                              let s4 = s3\<lparr>trained_date := td\<rparr> in
                              (True, s4\<lparr>model_type :=
                                 (case art_model_type data of
                                    Absent \<Rightarrow> ''decision_tree''
                                  | Present t \<Rightarrow> t)\<rparr>))))))"

section \<open>Reconciliation and prediction\<close>

text \<open>\<open>X[[col for col in X.columns if col in self.features]]\<close>\<close>

definition keep_known :: "string list \<Rightarrow> frame \<Rightarrow> frame" where
  "keep_known feats X = filter (\<lambda>cv. fst cv \<in> set feats) X"

text \<open>The loop \<open>for feature in self.features: if feature not in X.columns: X[feature] = 0\<close>\<close>

fun fill_absent :: "string list \<Rightarrow> frame \<Rightarrow> frame" where
  "fill_absent [] X = X"
| "fill_absent (feature # rest) X =
     fill_absent rest (if feature \<in> set (columns X) then X else X @ [(feature, Num 0)])"

text \<open>\<open>X[self.features]\<close>: one column per requested name, \<open>KeyError\<close> for an unknown one.\<close>

fun select_columns :: "string list \<Rightarrow> frame \<Rightarrow> exn + frame" where
  "select_columns [] X = Inr []"
| "select_columns (c # cs) X =
     (case map_of X c of
        None \<Rightarrow> Inl ''KeyError''
      | Some v \<Rightarrow> (case select_columns cs X of Inl e \<Rightarrow> Inl e | Inr Y \<Rightarrow> Inr ((c, v) # Y)))"

definition reconcile :: "string list \<Rightarrow> frame \<Rightarrow> exn + frame" where
  "reconcile feats X = select_columns feats (fill_absent feats (keep_known feats X))"

text \<open>The value a reconciled frame carries under a schema name.\<close>

definition reconciled_value :: "frame \<Rightarrow> string \<Rightarrow> cell" where
  "reconciled_value X c = (case map_of X c of Some v \<Rightarrow> v | None \<Rightarrow> Num 0)"

text \<open>
  \<open>SalesForecastModel.predict\<close>: loads the artifact when no model is held, returns
  \<open>None\<close> when there is still none, reconciles when a schema is held, and runs the
  pipeline. The holder is returned as \<open>load\<close> left it.
\<close>

definition predict ::
  "string \<Rightarrow> SalesForecastModel \<Rightarrow> filesystem \<Rightarrow> frame \<Rightarrow> (exn + pyfloat option) \<times> SalesForecastModel"
where
  "predict MODEL_PATH self0 fs X =
     (let self = (if model self0 = None then snd (load MODEL_PATH self0 fs) else self0) in
      case model self of
        None \<Rightarrow> (Inr None, self)
      | Some p \<Rightarrow>
          (case (case features self of None \<Rightarrow> Inr X | Some feats \<Rightarrow> reconcile feats X) of
             Inl e \<Rightarrow> (Inl e, self)
           | Inr X' \<Rightarrow>
               (case pipeline_predict p X' of
                  Inl e \<Rightarrow> (Inl e, self)
                | Inr y \<Rightarrow> (Inr (Some y), self))))"

section \<open>Column statistics\<close>

text \<open>
  A numeric column is a list of optional rationals, \<open>None\<close> standing for a missing value
  (\<open>NaN\<close>). The pandas reductions skip missing values and are undefined (\<open>NaN\<close>, here
  \<open>None\<close>) on too few values.
\<close>

type_synonym column = "rat option list"

definition present :: "column \<Rightarrow> rat list" where
  "present col = List.map_filter (\<lambda>v. v) col"

definition median_of :: "rat list \<Rightarrow> rat option" where
  "median_of xs =
     (let s = sort xs; n = length s
      in if n = 0 then None
         else if odd n then Some (s ! (n div 2))
         else Some ((s ! (n div 2 - 1) + s ! (n div 2)) / 2))"

definition mean_of :: "rat list \<Rightarrow> rat option" where
  "mean_of xs = (if xs = [] then None else Some (sum_list xs / of_nat (length xs)))"

text \<open>The sample variance (\<open>ddof = 1\<close>), whose square root is \<open>Series.std()\<close>.\<close>

definition variance_of :: "rat list \<Rightarrow> rat option" where
  "variance_of xs =
     (case mean_of xs of
        None \<Rightarrow> None
      | Some mu \<Rightarrow>
          if length xs < 2 then None
          else Some (sum_list (map (\<lambda>x. (x - mu)\<^sup>2) xs) / of_nat (length xs - 1)))"

definition median :: "column \<Rightarrow> rat option" where
  "median col = median_of (present col)"

definition mean :: "column \<Rightarrow> rat option" where
  "mean col = mean_of (present col)"

definition variance :: "column \<Rightarrow> rat option" where
  "variance col = variance_of (present col)"

text \<open>
  \<open>abs(x - mean) > 3 * std\<close>, stated on the variance: for \<open>std = sqrt var\<close> both sides are
  non-negative, so the comparison is that of the squares (lemma \<open>beyond_3_std_sqrt\<close>).
\<close>

definition beyond_3_std :: "rat \<Rightarrow> rat \<Rightarrow> rat \<Rightarrow> bool" where
  "beyond_3_std mu var x = (9 * var < (x - mu)\<^sup>2)"

definition fillna :: "rat option \<Rightarrow> column \<Rightarrow> column" where
  "fillna m col = map (\<lambda>v. case v of None \<Rightarrow> m | Some x \<Rightarrow> Some x) col"

text \<open>\<open>if df[col].isnull().sum() > 0: df[col] = df[col].fillna(df[col].median())\<close>\<close>

definition fill_missing :: "column \<Rightarrow> column" where
  "fill_missing col = (if None \<in> set col then fillna (median col) col else col)"

text \<open>\<open>if (df[col] <= 0).any(): df.loc[df[col] <= 0, col] = df[col].median()\<close>\<close>

definition nonpositive :: "rat option \<Rightarrow> bool" where
  "nonpositive v = (case v of None \<Rightarrow> False | Some x \<Rightarrow> x \<le> 0)"

definition fix_nonpositive :: "column \<Rightarrow> column" where
  "fix_nonpositive col =
     (if \<exists>v \<in> set col. nonpositive v
      then map (\<lambda>v. if nonpositive v then median col else v) col
      else col)"

text \<open>
  The outlier step: \<open>mean\<close> and \<open>std\<close> of the column as it stands, \<open>if std > 0\<close> (false
  for an undefined \<open>std\<close>), the mask \<open>abs(df[col] - mean) > 3 * std\<close> (false on a missing
  value), and the median of the column as it stands written over the masked rows.
\<close>

definition is_outlier :: "rat \<Rightarrow> rat \<Rightarrow> rat option \<Rightarrow> bool" where
  "is_outlier mu var v = (case v of None \<Rightarrow> False | Some x \<Rightarrow> beyond_3_std mu var x)"

definition clamp_outliers :: "column \<Rightarrow> column" where
  "clamp_outliers col =
     (case (mean col, variance col) of
        (Some mu, Some var) \<Rightarrow>
          if 0 < var then
            (if \<exists>v \<in> set col. is_outlier mu var v
             then map (\<lambda>v. if is_outlier mu var v then median col else v) col
             else col)
          else col
      | _ \<Rightarrow> col)"

text \<open>The three cleaning steps \<open>get_sales_data\<close> applies to each numeric column.\<close>

definition clean_numeric :: "column \<Rightarrow> column" where
  "clean_numeric col = clamp_outliers (fix_nonpositive (fill_missing col))"

section \<open>Extraction (\<open>data_service.get_sales_data\<close>)\<close>

text \<open>\<open>str\<close> of an integer, as \<open>astype(str)\<close> and the f-strings produce it.\<close>

function digits :: "nat \<Rightarrow> string" where
  "digits n = (if n < 10 then [''0123456789'' ! n]
               else digits (n div 10) @ [''0123456789'' ! (n mod 10)])"
  by pat_completeness auto
termination
  by (relation "measure (\<lambda>n. n)") auto

definition str :: "int \<Rightarrow> string" where
  "str i = (if i < 0 then CHR ''-'' # digits (nat (- i)) else digits (nat i))"

text \<open>
  One row of the query's result. The three name columns (\<open>product_name\<close>,
  \<open>category_name\<close>, \<open>supplier_name\<close>) are dropped before any use and are left out. The
  joins and the \<open>WHERE\<close> clause make the identifiers and the date non-null.
\<close>

record raw_row =
  raw_product_id :: int
  raw_category_id :: int
  raw_order_date :: timestamp
  raw_customer_id :: "string option"
  raw_quantity :: "rat option"
  raw_unit_price :: "rat option"
  raw_discount :: "rat option"
  raw_supplier_id :: int

record sales_row =
  product_id :: string
  category_id :: string
  customer_id :: string
  supplier_id :: string
  order_date :: "timestamp option"
  quantity :: "rat option"
  unit_price :: "rat option"
  discount :: "rat option"
  year :: "int option"
  month :: "int option"
  revenue :: "rat option"

record product =
  p_product_id :: int
  p_product_name :: string
  p_supplier_id :: "int option"
  p_category_id :: "int option"
  p_unit_price :: "rat option"

record customer =
  country :: "string option"

text \<open>
  The database session, as the results of the queries the services issue; a query may
  raise.
\<close>

record database =
  sales_query :: "timestamp option \<Rightarrow> timestamp option \<Rightarrow> exn + raw_row list"
  product_query :: "int \<Rightarrow> exn + product option"
  category_query :: "exn + int list"
  supplier_query :: "exn + int list"
  average_query :: "int \<Rightarrow> exn + (rat option \<times> rat option) option"
  customer_query :: "string \<Rightarrow> exn + customer option"

text \<open>
  What the services read from their surroundings: the configured artifact path, the clock
  (at extraction and at the end of training), the calendar of a timestamp, Python's string
  hash, and scikit-learn: \<open>fit\<close> is the split and the fit of the pipeline, which yield
  the fitted function; \<open>evaluate\<close> is the evaluation on the held-out part, which yields
  \<open>r2\<close>, \<open>rmse\<close>, \<open>mae\<close>, \<open>accuracy\<close> and \<open>threshold\<close>. Either may
  raise.
\<close>

record table =
  t_columns :: "string list"
  t_rows :: "cell list list"

record environment =
  MODEL_PATH :: string
  now :: timestamp
  trained_at :: timestamp
  min_date :: timestamp
  year_of :: "timestamp \<Rightarrow> int"
  month_of :: "timestamp \<Rightarrow> int"
  hash :: "string option \<Rightarrow> int"
  fit :: "regressor \<Rightarrow> table \<Rightarrow> column \<Rightarrow> rat \<Rightarrow> int \<Rightarrow> exn + (frame \<Rightarrow> exn + pyfloat)"
  evaluate :: "(frame \<Rightarrow> exn + pyfloat) \<Rightarrow> table \<Rightarrow> column \<Rightarrow> rat \<Rightarrow> int \<Rightarrow>
     exn + (pyfloat \<times> pyfloat \<times> pyfloat \<times> pyfloat \<times> pyfloat)"

text \<open>The median of a datetime column: the midpoint of the two middle values.\<close>

definition median_date :: "timestamp list \<Rightarrow> timestamp option" where
  "median_date ds =
     (let s = sort ds; n = length s
      in if n = 0 then None
         else if odd n then Some (s ! (n div 2))
         else Some ((s ! (n div 2 - 1) + s ! (n div 2)) div 2))"

definition invalid_date :: "environment \<Rightarrow> timestamp \<Rightarrow> bool" where
  "invalid_date env d = (d < min_date env \<or> now env < d)"

definition pin_dates :: "environment \<Rightarrow> timestamp list \<Rightarrow> timestamp option list" where
  "pin_dates env ds =
     (if \<exists>d \<in> set ds. invalid_date env d
      then map (\<lambda>d. if invalid_date env d
                     then median_date (filter (\<lambda>d. \<not> invalid_date env d) ds)
                     else Some d) ds
      else map Some ds)"

definition py_str_opt :: "string option \<Rightarrow> string" where
  "py_str_opt v = (case v of None \<Rightarrow> ''None'' | Some s \<Rightarrow> s)"

definition revenue_of :: "rat option \<Rightarrow> rat option \<Rightarrow> rat option \<Rightarrow> rat option" where
  "revenue_of q p d =
     (case (q, p, d) of (Some q', Some p', Some d') \<Rightarrow> Some (q' * p' * (1 - d')) | _ \<Rightarrow> None)"

text \<open>
  The cleaned frame, row by row, from the cleaned columns. The identifier columns are
  strings after \<open>astype(str)\<close> (a missing customer becomes the string \<open>None\<close>), so the
  later \<open>fillna\<close> with the mode finds nothing to fill.
\<close>

definition clean_rows :: "environment \<Rightarrow> raw_row list \<Rightarrow> sales_row list" where
  "clean_rows env rows =
     (let qs = clean_numeric (map raw_quantity rows);
          ps = clean_numeric (map raw_unit_price rows);
          ds = clean_numeric (map raw_discount rows);
          dates = pin_dates env (map raw_order_date rows)
      in map (\<lambda>i.
           \<lparr>product_id = str (raw_product_id (rows ! i)),
            category_id = str (raw_category_id (rows ! i)),
            customer_id = py_str_opt (raw_customer_id (rows ! i)),
            supplier_id = str (raw_supplier_id (rows ! i)),
            order_date = dates ! i,
            quantity = qs ! i,
            unit_price = ps ! i,
            discount = ds ! i,
            year = map_option (year_of env) (dates ! i),
            month = map_option (month_of env) (dates ! i),
            revenue = revenue_of (qs ! i) (ps ! i) (ds ! i)\<rparr>) [0 ..< length rows])"

text \<open>
  \<open>get_sales_data\<close>: the whole body sits in a \<open>try\<close> whose handler prints the
  exception and returns an empty frame; an empty result is returned as it is.
\<close>

definition get_sales_data ::
  "environment \<Rightarrow> database \<Rightarrow> timestamp option \<Rightarrow> timestamp option \<Rightarrow> sales_row list"
where
  "get_sales_data env db start_date end_date =
     (case sales_query db start_date end_date of
        Inl e \<Rightarrow> []
      | Inr rows \<Rightarrow> if rows = [] then [] else clean_rows env rows)"

section \<open>Monthly aggregation (\<open>data_service.get_monthly_sales_summary\<close>)\<close>

record monthly_row =
  m_product_id :: string
  m_category_id :: string
  m_supplier_id :: string
  m_year :: int
  m_month :: int
  total_quantity :: "rat option"
  total_revenue :: "rat option"
  avg_price :: "rat option"

type_synonym group_key = "string \<times> string \<times> string \<times> int \<times> int"

text \<open>\<open>groupby\<close> leaves out the rows whose key has a missing part, and sorts the groups.\<close>

definition key_of :: "sales_row \<Rightarrow> group_key option" where
  "key_of r =
     (case (year r, month r) of
        (Some y, Some m) \<Rightarrow> Some (product_id r, category_id r, supplier_id r, y, m)
      | _ \<Rightarrow> None)"

definition nansum :: "column \<Rightarrow> rat" where
  "nansum col = sum_list (present col)"

definition aggregate :: "sales_row list \<Rightarrow> group_key \<Rightarrow> monthly_row" where
  "aggregate sales_df k =
     (let g = filter (\<lambda>r. key_of r = Some k) sales_df
      in case k of (pid, cid, sid, y, m) \<Rightarrow>
        \<lparr>m_product_id = pid, m_category_id = cid, m_supplier_id = sid,
         m_year = y, m_month = m,
         total_quantity = Some (nansum (map quantity g)),
         total_revenue = Some (nansum (map revenue g)),
         avg_price = mean (map unit_price g)\<rparr>)"

definition get_monthly_sales_summary ::
  "environment \<Rightarrow> database \<Rightarrow> timestamp option \<Rightarrow> timestamp option \<Rightarrow> monthly_row list"
where
  "get_monthly_sales_summary env db start_date end_date =
     (let sales_df = get_sales_data env db start_date end_date
      in if sales_df = [] then []
         else map (aggregate sales_df) (sort (remdups (List.map_filter key_of sales_df))))"

section \<open>Training data (\<open>data_service.prepare_training_data\<close>)\<close>

definition startswith :: "string \<Rightarrow> string \<Rightarrow> bool" where
  "startswith s p = (take (length p) s = p)"

definition num_cell :: "rat option \<Rightarrow> cell" where
  "num_cell v = (case v of None \<Rightarrow> Missing | Some x \<Rightarrow> Num x)"

text \<open>
  \<open>pd.get_dummies(monthly_data[col], prefix=col)\<close>: one indicator column per distinct
  value, in sorted order, named \<open>prefix_value\<close>.
\<close>

definition dummy_names :: "string \<Rightarrow> string list \<Rightarrow> string list" where
  "dummy_names prefix vals = map (\<lambda>v. prefix @ ''_'' @ v) (sort (remdups vals))"

definition dummies :: "string \<Rightarrow> string list \<Rightarrow> string \<Rightarrow> frame" where
  "dummies prefix vals v =
     map (\<lambda>u. (prefix @ ''_'' @ u, Flag (v = u))) (sort (remdups vals))"

definition base_features :: "string list" where
  "base_features = [''product_id'', ''year'', ''month'', ''total_revenue'', ''avg_price'']"

text \<open>
  The frame after the one-hot encoding: the grouping and measure columns, the two original
  categorical columns dropped, the indicator columns appended.
\<close>

definition monthly_columns :: "monthly_row list \<Rightarrow> string list" where
  "monthly_columns md =
     [''product_id'', ''year'', ''month'', ''total_quantity'', ''total_revenue'', ''avg_price'']
     @ dummy_names ''category_id'' (map m_category_id md)
     @ dummy_names ''supplier_id'' (map m_supplier_id md)"

definition feature_cols :: "monthly_row list \<Rightarrow> string list" where
  "feature_cols md =
     base_features
     @ filter (\<lambda>col. startswith col ''category_'' \<or> startswith col ''supplier_'')
         (monthly_columns md)"

definition encoded_row ::
  "monthly_row list \<Rightarrow> column \<Rightarrow> column \<Rightarrow> column \<Rightarrow> nat \<Rightarrow> frame"
where
  "encoded_row md tq tr ap i =
     (let r = md ! i
      in [(''product_id'', Str (m_product_id r)),
          (''year'', Num (of_int (m_year r))),
          (''month'', Num (of_int (m_month r))),
          (''total_quantity'', num_cell (tq ! i)),
          (''total_revenue'', num_cell (tr ! i)),
          (''avg_price'', num_cell (ap ! i))]
         @ dummies ''category_id'' (map m_category_id md) (m_category_id r)
         @ dummies ''supplier_id'' (map m_supplier_id md) (m_supplier_id r))"

text \<open>
  \<open>monthly_data[feature_cols]\<close>; every name of \<open>feature_cols\<close> is a column of the
  encoded frame, so the lookup's default is never taken.
\<close>

definition project :: "string list \<Rightarrow> frame \<Rightarrow> cell list" where
  "project cols f = map (\<lambda>c. case map_of f c of None \<Rightarrow> Missing | Some v \<Rightarrow> v) cols"

text \<open>
  \<open>prepare_training_data\<close>: nothing for an empty summary; otherwise the three measure
  columns with their missing values filled and their outliers replaced (the identifier
  columns have no missing value to fill), the one-hot encoding, and the feature columns
  with the target \<open>total_quantity\<close>.
\<close>

definition prepare_training_data :: "environment \<Rightarrow> database \<Rightarrow> (table \<times> column) option" where
  "prepare_training_data env db =
     (let monthly_data = get_monthly_sales_summary env db None None
      in if monthly_data = [] then None
         else
           let tq = clamp_outliers (fill_missing (map total_quantity monthly_data));
               tr = clamp_outliers (fill_missing (map total_revenue monthly_data));
               ap = clamp_outliers (fill_missing (map avg_price monthly_data));
               cols = feature_cols monthly_data
           in Some (\<lparr>t_columns = cols,
                      t_rows = map (\<lambda>i. project cols (encoded_row monthly_data tq tr ap i))
                                 [0 ..< length monthly_data]\<rparr>,
                    tq))"

section \<open>Training (\<open>SalesForecastModel.train\<close>)\<close>

text \<open>
  \<open>train\<close> returns a dict: the metrics, or \<open>{"error": ...}\<close> with one of two messages,
  named here after the failure they report. An exception of the libraries or of \<open>save\<close>
  leaves \<open>train\<close> as an exception.
\<close>

datatype train_error = InsufficientDataError | UnknownModelTypeError string

datatype train_result = Error train_error | Metrics metrics

definition regressor_for :: "string \<Rightarrow> regressor option" where
  "regressor_for t =
     (if t = ''decision_tree'' then Some DecisionTreeRegressor
      else if t = ''linear'' then Some LinearRegression
      else if t = ''knn'' then Some KNeighborsRegressor
      else if t = ''logistic'' then Some LogisticRegression
      else None)"

definition metrics_dict ::
  "pyfloat \<Rightarrow> pyfloat \<Rightarrow> pyfloat \<Rightarrow> pyfloat \<Rightarrow> pyfloat \<Rightarrow> nat \<Rightarrow> rat \<Rightarrow> string \<Rightarrow> metrics"
where
  "metrics_dict r2 rmse mae accuracy threshold n test_size t =
     [(''r2_score'', MFloat r2), (''rmse'', MFloat rmse), (''mae'', MFloat mae),
      (''accuracy'', MFloat accuracy), (''threshold'', MFloat threshold),
      (''n_samples'', MInt (int n)), (''test_size'', MFloat (Fin test_size)),
      (''model_type'', MStr t)]"

definition train ::
  "environment \<Rightarrow> database \<Rightarrow> SalesForecastModel \<Rightarrow> filesystem \<Rightarrow> string \<Rightarrow> rat \<Rightarrow> int \<Rightarrow>
     (exn + train_result) \<times> SalesForecastModel \<times> filesystem"
where
  "train env db self fs t test_size random_state =
     (let s1 = self\<lparr>model_type := t\<rparr> in
      case prepare_training_data env db of
        None \<Rightarrow> (Inr (Error InsufficientDataError), s1, fs)
      | Some (X, y) \<Rightarrow>
          if length (t_rows X) < 10 then (Inr (Error InsufficientDataError), s1, fs)
          else
            let s2 = s1\<lparr>features := Some (t_columns X)\<rparr> in
            (case regressor_for t of
               None \<Rightarrow> (Inr (Error (UnknownModelTypeError t)), s2, fs)
             | Some reg \<Rightarrow>
                 let s3 = s2\<lparr>model := Some (Unfitted reg)\<rparr> in
                 (case fit env reg X y test_size random_state of
                    Inl e \<Rightarrow> (Inl e, s3, fs)
                  | Inr f \<Rightarrow>
                      let s4 = s3\<lparr>model := Some (Fitted reg f)\<rparr> in
                      (case evaluate env f X y test_size random_state of
                         Inl e \<Rightarrow> (Inl e, s4, fs)
                       | Inr (r2, rmse, mae, accuracy, threshold) \<Rightarrow>
                           let m = metrics_dict r2 rmse mae accuracy threshold
                                     (length (t_rows X)) test_size t;
                               s5 = s4\<lparr>metrics := Some m, trained_date := Some (trained_at env)\<rparr>
                           in (case save (MODEL_PATH env) s5 fs of
                                 Inl e \<Rightarrow> (Inl e, s5, fs)
                               | Inr fs' \<Rightarrow> (Inr (Metrics m), s5, fs'))))))"

section \<open>Request features (\<open>data_service.prepare_prediction_features\<close>)\<close>

text \<open>Assignment to a dict key: an existing key keeps its place, a new one goes last.\<close>

fun dict_set :: "string \<Rightarrow> cell \<Rightarrow> frame \<Rightarrow> frame" where
  "dict_set k v [] = [(k, v)]"
| "dict_set k v ((k', v') # d) =
     (if k = k' then (k, v) # d else (k', v') # dict_set k v d)"

definition indicator :: "int \<Rightarrow> int option \<Rightarrow> cell" where
  "indicator i own = Num (if own = Some i then 1 else 0)"

definition one_hot :: "string \<Rightarrow> int list \<Rightarrow> int option \<Rightarrow> frame \<Rightarrow> frame" where
  "one_hot prefix ids own d =
     fold (\<lambda>i. dict_set (prefix @ str i) (indicator i own)) (remdups ids) d"

text \<open>\<open>x if x else 0\<close> on an optional integer.\<close>

definition or_zero :: "int option \<Rightarrow> int" where
  "or_zero v = (case v of None \<Rightarrow> 0 | Some i \<Rightarrow> i)"

text \<open>
  The inner \<open>try\<close> around the averages: a raising query leaves both at \<open>None\<close>; a row
  gives \<open>row[0] or 0\<close> and \<open>row[1] or 0\<close>.
\<close>

definition average_revenue :: "database \<Rightarrow> int \<Rightarrow> rat option" where
  "average_revenue db pid =
     (case average_query db pid of
        Inl e \<Rightarrow> None
      | Inr None \<Rightarrow> None
      | Inr (Some (q, r)) \<Rightarrow> Some (case r of None \<Rightarrow> 0 | Some x \<Rightarrow> x))"

text \<open>
  The customer block: entered for a non-empty \<open>customer_id\<close>; a raising query is caught
  and the feature is left out.
\<close>

definition customer_features :: "environment \<Rightarrow> database \<Rightarrow> string option \<Rightarrow> frame \<Rightarrow> frame" where
  "customer_features env db cid d =
     (case cid of
        None \<Rightarrow> d
      | Some c \<Rightarrow>
          if c = [] then d
          else (case customer_query db c of
                  Inl e \<Rightarrow> d
                | Inr None \<Rightarrow> d
                | Inr (Some cust) \<Rightarrow>
                    dict_set ''customer_country'' (Num (of_int (hash env (country cust) mod 10))) d))"

text \<open>
  \<open>prepare_prediction_features\<close> returns \<open>None\<close> for an unknown product and for any
  exception of its body: a raising query, or \<open>product.unit_price * ...\<close> on a missing
  price.
\<close>

definition prepare_prediction_features ::
  "environment \<Rightarrow> database \<Rightarrow> int \<Rightarrow> timestamp \<Rightarrow> string option \<Rightarrow> rat option \<Rightarrow> frame option"
where
  "prepare_prediction_features env db pid date cid qty =
     (case product_query db pid of
        Inl e \<Rightarrow> None
      | Inr None \<Rightarrow> None
      | Inr (Some prd) \<Rightarrow>
          (case (category_query db, supplier_query db) of
             (Inr categories, Inr suppliers) \<Rightarrow>
               let avg_revenue =
                     (case average_revenue db pid of
                        Some r \<Rightarrow> Some r
                      | None \<Rightarrow> map_option (\<lambda>p. p * 10) (p_unit_price prd));
                   total_revenue =
                     (case avg_revenue of
                        None \<Rightarrow> None
                      | Some r \<Rightarrow>
                          (case qty of
                             None \<Rightarrow> Some r
                           | Some q \<Rightarrow> map_option (\<lambda>p. p * q) (p_unit_price prd)))
               in (case total_revenue of
                     None \<Rightarrow> None
                   | Some tr \<Rightarrow>
                       Some (customer_features env db cid
                         (one_hot ''supplier_'' suppliers (p_supplier_id prd)
                           (one_hot ''category_'' categories (p_category_id prd)
                             [(''product_id'', Num (of_int pid)),
                              (''year'', Num (of_int (year_of env date))),
                              (''month'', Num (of_int (month_of env date))),
                              (''avg_price'', num_cell (p_unit_price prd)),
                              (''total_revenue'', Num tr),
                              (''category_id'', Num (of_int (or_zero (p_category_id prd)))),
                              (''supplier_id'', Num (of_int (or_zero (p_supplier_id prd))))]))))
           | _ \<Rightarrow> None))"

section \<open>The prediction endpoint (\<open>routes.predict_sales\<close>)\<close>

record PredictionRequest =
  req_product_id :: int
  req_order_date :: timestamp
  req_customer_id :: "string option"
  req_quantity :: "rat option"

record PredictionResponse =
  res_product_id :: int
  res_product_name :: string
  predicted_quantity :: int
  confidence :: pyfloat
  res_timestamp :: timestamp

datatype http_error = HTTP_503 | HTTP_404 | HTTP_400 | HTTP_500

definition as_number :: "mval \<Rightarrow> exn + pyfloat" where
  "as_number v =
     (case v of MFloat x \<Rightarrow> Inr x | MInt i \<Rightarrow> Inr (Fin (of_int i))
      | MStr s \<Rightarrow> Inl ''TypeError'')"

text \<open>
  \<open>confidence = 0.8\<close>, replaced by \<open>max(0.5, min(0.95, r2_score))\<close> when the metrics hold
  an \<open>r2_score\<close>.
\<close>

definition confidence_of :: "metrics option \<Rightarrow> exn + pyfloat" where
  "confidence_of ms =
     (case ms of
        None \<Rightarrow> Inr (Fin (4 / 5))
      | Some m \<Rightarrow>
          (case map_of m ''r2_score'' of
             None \<Rightarrow> Inr (Fin (4 / 5))
           | Some v \<Rightarrow>
               (case as_number v of
                  Inl e \<Rightarrow> Inl e
                | Inr r2 \<Rightarrow> Inr (py_max (Fin (1 / 2)) (py_min (Fin (19 / 20)) r2)))))"

text \<open>\<open>round(max(0, float(prediction[0])))\<close>\<close>

definition rounded_prediction :: "pyfloat \<Rightarrow> exn + int" where
  "rounded_prediction y = py_round (py_max (Fin 0) y)"

definition predict_sales ::
  "environment \<Rightarrow> database \<Rightarrow> SalesForecastModel \<Rightarrow> filesystem \<Rightarrow> PredictionRequest \<Rightarrow>
     (http_error + PredictionResponse) \<times> SalesForecastModel"
where
  "predict_sales env db model0 fs req =
     (let (success, model1) =
            (if model model0 = None then load (MODEL_PATH env) model0 fs else (True, model0))
      in if \<not> success then (Inl HTTP_503, model1)
         else
           (case product_query db (req_product_id req) of
              Inl e \<Rightarrow> (Inl HTTP_500, model1)
            | Inr None \<Rightarrow> (Inl HTTP_404, model1)
            | Inr (Some prd) \<Rightarrow>
                (case prepare_prediction_features env db (req_product_id req)
                        (req_order_date req) (req_customer_id req) (req_quantity req) of
                   None \<Rightarrow> (Inl HTTP_400, model1)
                 | Some X \<Rightarrow>
                     (case predict (MODEL_PATH env) model1 fs X of
                        (Inl e, model2) \<Rightarrow> (Inl HTTP_500, model2)
                      | (Inr None, model2) \<Rightarrow> (Inl HTTP_500, model2)
                      | (Inr (Some y), model2) \<Rightarrow>
                          (case confidence_of (metrics model2) of
                             Inl e \<Rightarrow> (Inl HTTP_500, model2)
                           | Inr c \<Rightarrow>
                               (case rounded_prediction y of
                                  Inl e \<Rightarrow> (Inl HTTP_500, model2)
                                | Inr q \<Rightarrow>
                                    (Inr \<lparr>res_product_id = req_product_id req,
                                          res_product_name = p_product_name prd,
                                          predicted_quantity = q,
                                          confidence = c,
                                          res_timestamp = now env\<rparr>, model2)))))))"

section \<open>Concrete inputs\<close>

text \<open>
  A small world on which the services are run: a clock, a calendar that puts every
  timestamp in June 2024, a learner that always fits the constant prediction
  \<open>-5/2\<close> and reports \<open>r2 = 9/10\<close>, and the default artifact path.
\<close>

definition constant_pipeline :: "frame \<Rightarrow> exn + pyfloat" where
  "constant_pipeline X = Inr (Fin (- 5 / 2))"

definition example_env :: environment where
  "example_env =
     \<lparr>MODEL_PATH = ''app/models/sales_forecast_model.pkl'',
      now = 1000, trained_at = 1001, min_date = 0,
      year_of = (\<lambda>t. 2024), month_of = (\<lambda>t. 6),
      hash = (\<lambda>s. 7),
      fit = (\<lambda>reg X y test_size random_state. Inr constant_pipeline),
      evaluate = (\<lambda>f X y test_size random_state.
                   Inr (Fin (9 / 10), Fin 1, Fin 1, Fin 1, Fin 1))\<rparr>"

definition example_row :: "int \<Rightarrow> raw_row" where
  "example_row i =
     \<lparr>raw_product_id = i, raw_category_id = (if i < 6 then 1 else 2),
      raw_order_date = 100, raw_customer_id = Some ''VINET'',
      raw_quantity = Some 5, raw_unit_price = Some 10, raw_discount = Some (1 / 10),
      raw_supplier_id = 1\<rparr>"

definition example_product :: product where
  "example_product =
     \<lparr>p_product_id = 5, p_product_name = ''Gumbo Mix'', p_supplier_id = Some 1,
      p_category_id = Some 2, p_unit_price = Some 10\<rparr>"

text \<open>A database with ten order lines, one per product, and one known product.\<close>

definition example_db :: database where
  "example_db =
     \<lparr>sales_query = (\<lambda>start_date end_date. Inr (map example_row [0, 1, 2, 3, 4, 5, 6, 7, 8, 9])),
      product_query = (\<lambda>i. Inr (if i = 5 then Some example_product else None)),
      category_query = Inr [1, 2],
      supplier_query = Inr [1],
      average_query = (\<lambda>i. Inr (Some (Some 5, Some 45))),
      customer_query = (\<lambda>c. Inr (Some \<lparr>country = Some ''France''\<rparr>))\<rparr>"

text \<open>The same database with the order-line query failing.\<close>

definition unreachable_db :: database where
  "unreachable_db = example_db\<lparr>sales_query := (\<lambda>start_date end_date. Inl ''OperationalError'')\<rparr>"

text \<open>A holder with a model trained earlier on a different schema.\<close>

definition loaded_model :: SalesForecastModel where
  "loaded_model =
     \<lparr>model = Some (Fitted LinearRegression constant_pipeline),
      features = Some [''product_id'', ''year''],
      metrics = Some [(''r2_score'', MFloat (Fin (3 / 10)))],
      trained_date = Some 500,
      model_type = ''linear''\<rparr>"

text \<open>An artifact that holds a pipeline and none of the other fields.\<close>

definition incomplete_artifact :: artifact where
  "incomplete_artifact =
     \<lparr>art_model = Present (Some (Fitted LinearRegression constant_pipeline)),
      art_features = Absent, art_metrics = Absent, art_trained_date = Absent,
      art_model_type = Absent\<rparr>"

text \<open>
  A column of 54 values: 26 zeros, 26 ones, a 10 and a 20; and a request for the known
  product.
\<close>

definition skewed_column :: column where
  "skewed_column = replicate 26 (Some 0) @ replicate 26 (Some 1) @ [Some 10, Some 20]"

definition example_request :: PredictionRequest where
  "example_request =
     \<lparr>req_product_id = 5, req_order_date = 900, req_customer_id = Some ''VINET'',
      req_quantity = None\<rparr>"

text \<open>The schema and the metrics of a training run on the ten order lines.\<close>

definition example_schema :: "string list" where
  "example_schema =
     [''product_id'', ''year'', ''month'', ''total_revenue'', ''avg_price'',
      ''category_id_1'', ''category_id_2'', ''supplier_id_1'']"

definition example_metrics :: metrics where
  "example_metrics =
     [(''r2_score'', MFloat (Fin (9 / 10))), (''rmse'', MFloat (Fin 1)),
      (''mae'', MFloat (Fin 1)), (''accuracy'', MFloat (Fin 1)),
      (''threshold'', MFloat (Fin 1)), (''n_samples'', MInt 10),
      (''test_size'', MFloat (Fin (1 / 5))), (''model_type'', MStr ''linear'')]"

text \<open>A database with three order lines only.\<close>

definition small_db :: database where
  "small_db = example_db\<lparr>sales_query := (\<lambda>start_date end_date. Inr (map example_row [0, 1, 2]))\<rparr>"

text \<open>\<open>len(X)\<close> as \<open>train\<close> tests it, with \<open>0\<close> for \<open>X is None\<close>.\<close>

definition prepared_rows :: "environment \<Rightarrow> database \<Rightarrow> nat" where
  "prepared_rows env db =
     (case prepare_training_data env db of None \<Rightarrow> 0 | Some (X, y) \<Rightarrow> length (t_rows X))"

text \<open>The holder and the artifact after a \<open>linear\<close> training run on the ten order lines.\<close>

definition trained_model :: SalesForecastModel where
  "trained_model =
     \<lparr>model = Some (Fitted LinearRegression constant_pipeline),
      features = Some example_schema,
      metrics = Some example_metrics,
      trained_date = Some 1001,
      model_type = ''linear''\<rparr>"

definition trained_artifact :: artifact where
  "trained_artifact =
     \<lparr>art_model = Present (Some (Fitted LinearRegression constant_pipeline)),
      art_features = Present (Some example_schema),
      art_metrics = Present (Some example_metrics),
      art_trained_date = Present (Some 1001),
      art_model_type = Present ''linear''\<rparr>"

text \<open>
  The skewed column after its zeros have been replaced by the median, and after the
  outlier step.
\<close>

definition shifted_column :: column where
  "shifted_column = replicate 26 (Some 1) @ replicate 26 (Some 1) @ [Some 10, Some 20]"

definition once_cleaned :: column where
  "once_cleaned = replicate 26 (Some 1) @ replicate 26 (Some 1) @ [Some 10, Some 1]"

section \<open>Reconciliation is total and follows the schema\<close>

lemma columns_keep_known: "set (columns (keep_known feats X)) = set (columns X) \<inter> set feats"
  by (auto simp: columns_def keep_known_def)

lemma map_of_keep_known:
  "map_of (keep_known feats X) c = (if c \<in> set feats then map_of X c else None)"
  by (induction X) (auto simp: keep_known_def)

lemma map_of_fill_absent:
  "map_of (fill_absent fs X) c =
     (case map_of X c of Some v \<Rightarrow> Some v
      | None \<Rightarrow> if c \<in> set fs then Some (Num 0) else None)"
proof (induction fs arbitrary: X)
  case Nil
  show ?case by (simp split: option.splits)
next
  case (Cons f fs)
  show ?case
  proof (cases "f \<in> set (columns X)")
    case True
    then have "map_of X f \<noteq> None"
      by (simp add: columns_def map_of_eq_None_iff)
    with True show ?thesis
      by (auto simp: Cons.IH split: option.splits)
  next
    case False
    then have "map_of X f = None"
      by (simp add: columns_def map_of_eq_None_iff)
    with False show ?thesis
      by (auto simp: Cons.IH map_add_def split: option.splits)
  qed
qed

lemma select_columns_total:
  "set cs \<subseteq> dom (map_of X) \<Longrightarrow>
     select_columns cs X = Inr (map (\<lambda>c. (c, the (map_of X c))) cs)"
  by (induction cs) (auto split: option.splits)

lemma reconcile_eq:
  "reconcile feats X = Inr (map (\<lambda>c. (c, reconciled_value X c)) feats)"
proof -
  let ?Z = "fill_absent feats (keep_known feats X)"
  have m: "map_of ?Z c = Some (reconciled_value X c)" if "c \<in> set feats" for c
    using that
    by (simp add: map_of_fill_absent map_of_keep_known reconciled_value_def
        split: option.splits)
  then have "set feats \<subseteq> dom (map_of ?Z)" by blast
  then have "select_columns feats ?Z = Inr (map (\<lambda>c. (c, the (map_of ?Z c))) feats)"
    by (rule select_columns_total)
  also have "map (\<lambda>c. (c, the (map_of ?Z c))) feats
      = map (\<lambda>c. (c, reconciled_value X c)) feats"
    using m by simp
  finally show ?thesis by (simp add: reconcile_def)
qed

text \<open>
  Claim C1. For every feature vector (a one-row frame with distinct column names) and every
  schema, the reconciliation before prediction never fails; its result has exactly the
  schema's names, in the schema's order; each name carries the request's value when the
  request has one and \<open>0\<close> otherwise; a request column outside the schema is gone; and
  the pipeline is run on that reconciled frame.
\<close>

theorem reconcile_total_in_schema_order:
  assumes "distinct (columns X)"
  shows "\<exists>Y. reconcile feats X = Inr Y
           \<and> columns Y = feats
           \<and> (\<forall>i < length feats.
                 snd (Y ! i) = (case map_of X (feats ! i) of Some v \<Rightarrow> v | None \<Rightarrow> Num 0))
           \<and> (\<forall>c \<in> set (columns X). c \<notin> set feats \<longrightarrow> c \<notin> set (columns Y))
           \<and> (\<forall>self p path fs. model self = Some p \<and> features self = Some feats \<longrightarrow>
                 fst (predict path self fs X) = map_sum id Some (pipeline_predict p Y))"
proof -
  let ?Y = "map (\<lambda>c. (c, reconciled_value X c)) feats"
  have r: "reconcile feats X = Inr ?Y" by (rule reconcile_eq)
  have c: "columns ?Y = feats" by (simp add: columns_def comp_def)
  have v: "\<forall>i < length feats.
      snd (?Y ! i) = (case map_of X (feats ! i) of Some v \<Rightarrow> v | None \<Rightarrow> Num 0)"
    by (simp add: reconciled_value_def)
  have d: "\<forall>c \<in> set (columns X). c \<notin> set feats \<longrightarrow> c \<notin> set (columns ?Y)"
    using c by simp
  have p: "\<forall>self p path fs. model self = Some p \<and> features self = Some feats \<longrightarrow>
      fst (predict path self fs X) = map_sum id Some (pipeline_predict p ?Y)"
    by (auto simp: predict_def r split: sum.splits)
  from r c v d p show ?thesis by blast
qed

theorem reconcile_total_in_schema_order_witness:
  "distinct (columns [(''a'', Num 1), (''z'', Num 5)])
   \<and> reconcile [''b'', ''a''] [(''a'', Num 1), (''z'', Num 5)] = Inr [(''b'', Num 0), (''a'', Num 1)]"
proof -
  have h: "distinct (columns [(''a'', Num 1), (''z'', Num 5)])"
    by (simp add: columns_def)
  from reconcile_total_in_schema_order [OF h, of "[''b'', ''a'']"]
  obtain Y where y: "reconcile [''b'', ''a''] [(''a'', Num 1), (''z'', Num 5)] = Inr Y"
    by blast
  have "reconcile [''b'', ''a''] [(''a'', Num 1), (''z'', Num 5)] = Inr [(''b'', Num 0), (''a'', Num 1)]"
    by (simp add: reconcile_def keep_known_def columns_def)
  with h show ?thesis by simp
qed

section \<open>Saving and loading the artifact\<close>

text \<open>
  Claim C4. Whenever \<open>save\<close> returns, \<open>load\<close> from the same path succeeds, into any
  holder, and yields the saved metrics, feature schema, model type and training date (and
  pipeline) unchanged.
\<close>

theorem save_load_round_trip:
  assumes "save path self fs = Inr fs'"
  shows "\<exists>loaded. load path other fs' = (True, loaded)
           \<and> metrics loaded = metrics self
           \<and> features loaded = features self
           \<and> model_type loaded = model_type self
           \<and> trained_date loaded = trained_date self
           \<and> model loaded = model self"
  using assms by (auto simp: save_def load_def split: if_splits)

theorem save_load_round_trip_witness:
  "save (MODEL_PATH example_env) loaded_model Map.empty
     = Inr [MODEL_PATH example_env \<mapsto> Pickle
         \<lparr>art_model = Present (model loaded_model),
          art_features = Present (features loaded_model),
          art_metrics = Present (metrics loaded_model),
          art_trained_date = Present (trained_date loaded_model),
          art_model_type = Present (model_type loaded_model)\<rparr>]
   \<and> (\<exists>loaded. load (MODEL_PATH example_env) init
          [MODEL_PATH example_env \<mapsto> Pickle
            \<lparr>art_model = Present (model loaded_model),
             art_features = Present (features loaded_model),
             art_metrics = Present (metrics loaded_model),
             art_trained_date = Present (trained_date loaded_model),
             art_model_type = Present (model_type loaded_model)\<rparr>] = (True, loaded)
        \<and> metrics loaded = metrics loaded_model
        \<and> features loaded = features loaded_model
        \<and> model_type loaded = model_type loaded_model
        \<and> trained_date loaded = trained_date loaded_model
        \<and> model loaded = model loaded_model)"
proof -
  have h: "save (MODEL_PATH example_env) loaded_model Map.empty
     = Inr [MODEL_PATH example_env \<mapsto> Pickle
         \<lparr>art_model = Present (model loaded_model),
          art_features = Present (features loaded_model),
          art_metrics = Present (metrics loaded_model),
          art_trained_date = Present (trained_date loaded_model),
          art_model_type = Present (model_type loaded_model)\<rparr>]"
    by (simp add: save_def dirname_empty_def example_env_def)
  from h save_load_round_trip [OF h, of init] show ?thesis by blast
qed

text \<open>
  Claim C6. An artifact that holds a pipeline but no feature list makes \<open>load\<close> report
  failure after it has already installed the pipeline: the holder is left partially
  populated, not untouched.
\<close>

theorem load_incomplete_artifact_partial:
  "load (MODEL_PATH example_env) init [MODEL_PATH example_env \<mapsto> Pickle incomplete_artifact]
     = (False, init\<lparr>model := Some (Fitted LinearRegression constant_pipeline)\<rparr>)
   \<and> init\<lparr>model := Some (Fitted LinearRegression constant_pipeline)\<rparr> \<noteq> init"
  by (simp add: load_def incomplete_artifact_def init_def)

section \<open>The paths through train\<close>

lemma train_insufficient:
  assumes "prepared_rows env db < 10"
  shows "train env db self fs t test_size random_state
           = (Inr (Error InsufficientDataError), self\<lparr>model_type := t\<rparr>, fs)"
proof (cases "prepare_training_data env db")
  case None
  then show ?thesis by (simp add: train_def)
next
  case (Some Xy)
  obtain X y where "Xy = (X, y)" by (cases Xy)
  with Some assms show ?thesis by (simp add: train_def prepared_rows_def)
qed

lemma train_unknown_type:
  assumes "prepare_training_data env db = Some (X, y)" and "\<not> length (t_rows X) < 10"
    and "regressor_for t = None"
  shows "train env db self fs t test_size random_state
           = (Inr (Error (UnknownModelTypeError t)),
              self\<lparr>model_type := t, features := Some (t_columns X)\<rparr>, fs)"
  using assms by (simp add: train_def)

lemma train_success:
  assumes "prepare_training_data env db = Some (X, y)" and "\<not> length (t_rows X) < 10"
    and "regressor_for t = Some reg"
    and "fit env reg X y test_size random_state = Inr f"
    and "evaluate env f X y test_size random_state = Inr (r2, rmse, mae, accuracy, threshold)"
    and "m = metrics_dict r2 rmse mae accuracy threshold (length (t_rows X)) test_size t"
    and "self' = self\<lparr>model_type := t, features := Some (t_columns X),
                      model := Some (Fitted reg f), metrics := Some m,
                      trained_date := Some (trained_at env)\<rparr>"
    and "save (MODEL_PATH env) self' fs = Inr fs'"
  shows "train env db self fs t test_size random_state = (Inr (Metrics m), self', fs')"
  using assms by (simp add: train_def Let_def)

lemma train_returns_metrics:
  assumes "train env db self fs t test_size random_state = (Inr (Metrics m), self', fs')"
  shows "\<exists>X y reg f. prepare_training_data env db = Some (X, y)
           \<and> features self' = Some (t_columns X)
           \<and> model self' = Some (Fitted reg f)
           \<and> metrics self' = Some m
           \<and> save (MODEL_PATH env) self' fs = Inr fs'"
  using assms
  by (auto simp: train_def Let_def split: option.splits if_splits sum.splits prod.splits)

lemma train_returns_error:
  assumes "train env db self fs t test_size random_state = (Inr (Error err), self', fs')"
  shows "fs' = fs \<and> model self' = model self \<and> metrics self' = metrics self
           \<and> trained_date self' = trained_date self"
  using assms
  by (auto simp: train_def Let_def split: option.splits if_splits sum.splits prod.splits)

section \<open>The concrete training run\<close>

lemma example_training_data:
  "\<exists>X y. prepare_training_data example_env example_db = Some (X, y)
         \<and> t_columns X = example_schema \<and> length (t_rows X) = 10"
proof -
  have "map_option (\<lambda>(X, y). (t_columns X, length (t_rows X)))
          (prepare_training_data example_env example_db) = Some (example_schema, 10)"
    by code_simp
  then show ?thesis by (auto split: prod.splits)
qed

lemma small_training_data: "prepared_rows example_env small_db = 3"
  by code_simp

lemma unreachable_training_data: "prepared_rows example_env unreachable_db = 0"
  by code_simp

text \<open>
  Claim C5. When the prepared training set has fewer than ten rows, or there is none at
  all, \<open>train\<close> ends with the insufficient-data error, and the holder's pipeline,
  schema, metrics and training date, and the artifact file, are what they were.
\<close>

theorem train_insufficient_data:
  assumes "prepared_rows env db < 10"
  shows "\<exists>self'. train env db self fs t test_size random_state
                    = (Inr (Error InsufficientDataError), self', fs)
           \<and> model self' = model self \<and> features self' = features self
           \<and> metrics self' = metrics self \<and> trained_date self' = trained_date self"
  using train_insufficient [OF assms] by simp

theorem train_insufficient_data_witness:
  "prepared_rows example_env small_db < 10
   \<and> train example_env small_db loaded_model Map.empty ''knn'' (1 / 5) 42
       = (Inr (Error InsufficientDataError), loaded_model\<lparr>model_type := ''knn''\<rparr>, Map.empty)"
proof -
  have h: "prepared_rows example_env small_db < 10"
    by (simp add: small_training_data)
  from train_insufficient_data [OF h, of loaded_model Map.empty "''knn''" "1 / 5" 42]
  obtain self' where
    "train example_env small_db loaded_model Map.empty ''knn'' (1 / 5) 42
       = (Inr (Error InsufficientDataError), self', Map.empty)"
    by blast
  moreover have "train example_env small_db loaded_model Map.empty ''knn'' (1 / 5) 42
       = (Inr (Error InsufficientDataError), loaded_model\<lparr>model_type := ''knn''\<rparr>, Map.empty)"
    by (rule train_insufficient [OF h])
  ultimately show ?thesis using h by simp
qed

text \<open>
  Claim C3. On the ten order lines, \<open>train\<close> with the unknown type \<open>bogus\<close> reports
  the unknown type, but the holder that held a \<open>linear\<close> model with a two-column schema
  now carries the tag \<open>bogus\<close> and the new eight-column schema, next to the old pipeline.
\<close>

theorem train_unknown_type_overwrites_holder:
  "train example_env example_db loaded_model Map.empty ''bogus'' (1 / 5) 42
     = (Inr (Error (UnknownModelTypeError ''bogus'')),
        loaded_model\<lparr>model_type := ''bogus'', features := Some example_schema\<rparr>, Map.empty)
   \<and> model_type loaded_model = ''linear''
   \<and> features loaded_model = Some [''product_id'', ''year'']"
proof -
  obtain X y where p: "prepare_training_data example_env example_db = Some (X, y)"
    and c: "t_columns X = example_schema" and n: "length (t_rows X) = 10"
    using example_training_data by blast
  have "regressor_for ''bogus'' = None" by (simp add: regressor_for_def)
  with p n have "train example_env example_db loaded_model Map.empty ''bogus'' (1 / 5) 42
     = (Inr (Error (UnknownModelTypeError ''bogus'')),
        loaded_model\<lparr>model_type := ''bogus'', features := Some (t_columns X)\<rparr>, Map.empty)"
    by (intro train_unknown_type) simp_all
  with c show ?thesis by (simp add: loaded_model_def)
qed

lemma example_training_run:
  "train example_env example_db init Map.empty ''linear'' (1 / 5) 42
     = (Inr (Metrics example_metrics), trained_model,
        [MODEL_PATH example_env \<mapsto> Pickle trained_artifact])"
proof -
  obtain X y where p: "prepare_training_data example_env example_db = Some (X, y)"
    and c: "t_columns X = example_schema" and n: "length (t_rows X) = 10"
    using example_training_data by blast
  show ?thesis
  proof (rule train_success [OF p])
    show "\<not> length (t_rows X) < 10" using n by simp
    show "regressor_for ''linear'' = Some LinearRegression"
      by (simp add: regressor_for_def)
    show "fit example_env LinearRegression X y (1 / 5) 42 = Inr constant_pipeline"
      by (simp add: example_env_def)
    show "evaluate example_env constant_pipeline X y (1 / 5) 42
            = Inr (Fin (9 / 10), Fin 1, Fin 1, Fin 1, Fin 1)"
      by (simp add: example_env_def)
    show "example_metrics
            = metrics_dict (Fin (9 / 10)) (Fin 1) (Fin 1) (Fin 1) (Fin 1)
                (length (t_rows X)) (1 / 5) ''linear''"
      using n by (simp add: example_metrics_def metrics_dict_def)
    show "trained_model
            = init\<lparr>model_type := ''linear'', features := Some (t_columns X),
                   model := Some (Fitted LinearRegression constant_pipeline),
                   metrics := Some example_metrics,
                   trained_date := Some (trained_at example_env)\<rparr>"
      using c by (simp add: trained_model_def init_def example_env_def)
    show "save (MODEL_PATH example_env) trained_model Map.empty
            = Inr [MODEL_PATH example_env \<mapsto> Pickle trained_artifact]"
      by (simp add: save_def dirname_empty_def example_env_def trained_model_def
          trained_artifact_def)
  qed
qed

section \<open>A failing extraction\<close>

lemma get_sales_data_raising:
  "sales_query db start_date end_date = Inl e \<Longrightarrow> get_sales_data env db start_date end_date = []"
  by (simp add: get_sales_data_def)

lemma prepared_rows_raising:
  assumes "sales_query db None None = Inl e"
  shows "prepare_training_data env db = None" and "prepared_rows env db = 0"
  using assms
  by (simp_all add: prepared_rows_def prepare_training_data_def get_monthly_sales_summary_def
      get_sales_data_def)

text \<open>
  Claim C2, as stated, fails: with the order-line query raising, \<open>get_sales_data\<close>
  does not fail; it returns the empty frame, and \<open>train\<close> then reports too little data.
\<close>

theorem extraction_failure_returns_empty:
  "sales_query unreachable_db None None = Inl ''OperationalError''
   \<and> get_sales_data example_env unreachable_db None None = []
   \<and> train example_env unreachable_db init Map.empty ''linear'' (1 / 5) 42
       = (Inr (Error InsufficientDataError), init\<lparr>model_type := ''linear''\<rparr>, Map.empty)"
proof -
  have q: "sales_query unreachable_db None None = Inl ''OperationalError''"
    by (simp add: unreachable_db_def)
  have "prepared_rows example_env unreachable_db < 10"
    using prepared_rows_raising(2) [OF q] by simp
  then have "train example_env unreachable_db init Map.empty ''linear'' (1 / 5) 42
       = (Inr (Error InsufficientDataError), init\<lparr>model_type := ''linear''\<rparr>, Map.empty)"
    by (rule train_insufficient)
  with q get_sales_data_raising [OF q] show ?thesis by simp
qed

text \<open>
  Claim C2, amended. When the order-line query raises, \<open>get_sales_data\<close> catches the
  exception and returns the empty frame; the monthly summary is empty as well,
  \<open>prepare_training_data\<close> returns nothing, and \<open>train\<close> ends with the
  insufficient-data error, having written the model type tag only.
\<close>

theorem extraction_failure_degrades:
  assumes "sales_query db start_date end_date = Inl e"
  shows "get_sales_data env db start_date end_date = []
       \<and> get_monthly_sales_summary env db start_date end_date = []
       \<and> (start_date = None \<and> end_date = None \<longrightarrow>
            prepare_training_data env db = None
            \<and> train env db self fs t test_size random_state
                = (Inr (Error InsufficientDataError), self\<lparr>model_type := t\<rparr>, fs))"
proof -
  have g: "get_sales_data env db start_date end_date = []"
    using assms by (rule get_sales_data_raising)
  then have m: "get_monthly_sales_summary env db start_date end_date = []"
    by (simp add: get_monthly_sales_summary_def)
  have "prepare_training_data env db = None
        \<and> train env db self fs t test_size random_state
            = (Inr (Error InsufficientDataError), self\<lparr>model_type := t\<rparr>, fs)"
    if "start_date = None" "end_date = None"
  proof -
    from assms that have q: "sales_query db None None = Inl e" by simp
    have "prepared_rows env db < 10" using prepared_rows_raising(2) [OF q] by simp
    then show ?thesis using prepared_rows_raising(1) [OF q] train_insufficient by blast
  qed
  with g m show ?thesis by blast
qed

theorem extraction_failure_degrades_witness:
  "sales_query unreachable_db None None = Inl ''OperationalError''
   \<and> get_monthly_sales_summary example_env unreachable_db None None = []
   \<and> prepare_training_data example_env unreachable_db = None
   \<and> train example_env unreachable_db loaded_model Map.empty ''knn'' (1 / 5) 42
       = (Inr (Error InsufficientDataError), loaded_model\<lparr>model_type := ''knn''\<rparr>, Map.empty)"
proof -
  have q: "sales_query unreachable_db None None = Inl ''OperationalError''"
    by (simp add: unreachable_db_def)
  from extraction_failure_degrades [OF q, of example_env loaded_model Map.empty "''knn''" "1 / 5" 42]
  show ?thesis using q by simp
qed

section \<open>Training writes the artifact\<close>

text \<open>
  Claim C9, as stated, fails: a successful \<open>train\<close> on the ten order lines, started
  with no artifact on disk, leaves the artifact written at the configured path.
\<close>

theorem train_writes_artifact:
  "train example_env example_db init Map.empty ''linear'' (1 / 5) 42
     = (Inr (Metrics example_metrics), trained_model,
        [MODEL_PATH example_env \<mapsto> Pickle trained_artifact])
   \<and> [MODEL_PATH example_env \<mapsto> Pickle trained_artifact] (MODEL_PATH example_env)
       \<noteq> (Map.empty :: filesystem) (MODEL_PATH example_env)"
  using example_training_run by simp

text \<open>
  Claim C9, amended. A \<open>train\<close> that returns metrics has itself saved the holder: the
  file system it leaves is that of \<open>save\<close> on the new holder, and the artifact at the
  configured path holds the holder's five fields. A \<open>train\<close> that returns an error
  dict leaves the file system as it was.
\<close>

theorem train_persists_itself:
  assumes "train env db self fs t test_size random_state = (Inr r, self', fs')"
  shows "case r of
           Metrics m \<Rightarrow>
             save (MODEL_PATH env) self' fs = Inr fs'
             \<and> metrics self' = Some m
             \<and> fs' (MODEL_PATH env) = Some (Pickle
                  \<lparr>art_model = Present (model self'),
                   art_features = Present (features self'),
                   art_metrics = Present (metrics self'),
                   art_trained_date = Present (trained_date self'),
                   art_model_type = Present (model_type self')\<rparr>)
         | Error err \<Rightarrow> fs' = fs"
proof (cases r)
  case (Error err)
  with assms train_returns_error show ?thesis by fastforce
next
  case (Metrics m)
  with assms train_returns_metrics [of env db self fs t test_size random_state m self' fs']
  have s: "save (MODEL_PATH env) self' fs = Inr fs'" and "metrics self' = Some m"
    by auto
  moreover from s have "fs' (MODEL_PATH env) = Some (Pickle
                  \<lparr>art_model = Present (model self'),
                   art_features = Present (features self'),
                   art_metrics = Present (metrics self'),
                   art_trained_date = Present (trained_date self'),
                   art_model_type = Present (model_type self')\<rparr>)"
    by (auto simp: save_def split: if_splits)
  ultimately show ?thesis using Metrics by simp
qed

theorem train_persists_itself_witness:
  "train example_env example_db init Map.empty ''linear'' (1 / 5) 42
     = (Inr (Metrics example_metrics), trained_model,
        [MODEL_PATH example_env \<mapsto> Pickle trained_artifact])
   \<and> save (MODEL_PATH example_env) trained_model Map.empty
       = Inr [MODEL_PATH example_env \<mapsto> Pickle trained_artifact]
   \<and> metrics trained_model = Some example_metrics"
  using example_training_run train_persists_itself [OF example_training_run] by simp

section \<open>The response of the prediction endpoint\<close>

lemma round_half_even_near: "\<bar>of_int (round_half_even q) - q\<bar> \<le> 1 / 2"
proof -
  define f where "f = \<lfloor>q\<rfloor>"
  define d where "d = q - of_int f"
  have b: "0 \<le> d" "d < 1"
    unfolding d_def f_def by linarith+
  have r: "round_half_even q = (if d < 1 / 2 then f else if 1 / 2 < d then f + 1
                                else if even f then f else f + 1)"
    by (simp add: round_half_even_def Let_def f_def d_def)
  have q: "q = of_int f + d" by (simp add: d_def)
  show ?thesis
  proof (cases "d < 1 / 2")
    case True
    with b r q show ?thesis by simp
  next
    case False
    note nl = this
    show ?thesis
    proof (cases "1 / 2 < d")
      case True
      with nl b r q show ?thesis by simp
    next
      case False
      with nl have "d = 1 / 2" by simp
      with r q show ?thesis by simp
    qed
  qed
qed

lemma round_half_even_nonneg: "0 \<le> q \<Longrightarrow> 0 \<le> round_half_even q"
proof -
  assume "0 \<le> q"
  then have "0 \<le> \<lfloor>q\<rfloor>" by simp
  then show ?thesis by (auto simp: round_half_even_def Let_def)
qed

lemma rounded_prediction_clamped:
  assumes "rounded_prediction y = Inr n"
  shows "\<exists>q. py_max (Fin 0) y = Fin q \<and> 0 \<le> q \<and> n = round_half_even q"
  using assms by (cases y) (auto simp: rounded_prediction_def py_max_def split: if_splits)

lemma clamp_range:
  "case py_max (Fin (1 / 2)) (py_min (Fin (19 / 20)) r2) of
     Fin r \<Rightarrow> 1 / 2 \<le> r \<and> r \<le> 19 / 20
   | _ \<Rightarrow> False"
  by (cases r2) (auto simp: py_max_def py_min_def)

lemma confidence_of_range:
  assumes "confidence_of ms = Inr c"
  shows "\<exists>r. c = Fin r \<and> 1 / 2 \<le> r \<and> r \<le> 19 / 20"
proof (cases "\<exists>m v. ms = Some m \<and> map_of m ''r2_score'' = Some v")
  case False
  with assms have "c = Fin (4 / 5)"
    by (auto simp: confidence_of_def split: option.splits)
  then show ?thesis by (intro exI [of _ "4 / 5"]) simp
next
  case True
  then obtain m v where m: "ms = Some m" "map_of m ''r2_score'' = Some v" by blast
  with assms obtain r2 where "as_number v = Inr r2"
    and c: "c = py_max (Fin (1 / 2)) (py_min (Fin (19 / 20)) r2)"
    by (auto simp: confidence_of_def split: sum.splits)
  from clamp_range [of r2] show ?thesis unfolding c
    by (cases "py_max (Fin (1 / 2)) (py_min (Fin (19 / 20)) r2)") simp_all
qed

lemma confidence_of_default:
  assumes "case ms of None \<Rightarrow> True | Some m \<Rightarrow> map_of m ''r2_score'' = None"
  shows "confidence_of ms = Inr (Fin (4 / 5))"
  using assms by (auto simp: confidence_of_def split: option.splits)

lemma predict_sales_response:
  assumes "predict_sales env db model0 fs req = (Inr res, model1)"
  shows "\<exists>m X y. predict (MODEL_PATH env) m fs X = (Inr (Some y), model1)
           \<and> rounded_prediction y = Inr (predicted_quantity res)
           \<and> confidence_of (metrics model1) = Inr (confidence res)"
  using assms
  apply (auto simp: predict_sales_def Let_def
      split: prod.splits if_splits sum.splits option.splits)
   apply blast+
  done

text \<open>
  Claim C7. Whenever \<open>predict_sales\<close> returns a response, the predicted quantity is a
  non-negative integer: the pipeline's output clamped to \<open>0\<close> from below and rounded, at
  most one half away from the clamped value. The confidence is a finite number between
  \<open>0.5\<close> and \<open>0.95\<close>: the clamped \<open>r2_score\<close> of the holder's metrics, and
  \<open>0.8\<close> when the holder has no metrics or the metrics no \<open>r2_score\<close>.
\<close>

theorem predict_sales_bounded:
  assumes "predict_sales env db model0 fs req = (Inr res, model1)"
  shows "0 \<le> predicted_quantity res
       \<and> (\<exists>m X y q. predict (MODEL_PATH env) m fs X = (Inr (Some y), model1)
             \<and> py_max (Fin 0) y = Fin q \<and> 0 \<le> q
             \<and> predicted_quantity res = round_half_even q
             \<and> \<bar>of_int (predicted_quantity res) - q\<bar> \<le> 1 / 2)
       \<and> (\<exists>c. confidence res = Fin c \<and> 1 / 2 \<le> c \<and> c \<le> 19 / 20)
       \<and> confidence_of (metrics model1) = Inr (confidence res)
       \<and> ((case metrics model1 of None \<Rightarrow> True | Some ms \<Rightarrow> map_of ms ''r2_score'' = None)
            \<longrightarrow> confidence res = Fin (4 / 5))"
proof -
  from predict_sales_response [OF assms] obtain m X y where
    p: "predict (MODEL_PATH env) m fs X = (Inr (Some y), model1)"
    and r: "rounded_prediction y = Inr (predicted_quantity res)"
    and c: "confidence_of (metrics model1) = Inr (confidence res)"
    by blast
  from rounded_prediction_clamped [OF r] obtain q where
    q: "py_max (Fin 0) y = Fin q" "0 \<le> q" "predicted_quantity res = round_half_even q"
    by blast
  have n: "0 \<le> predicted_quantity res"
    using q round_half_even_nonneg by simp
  have a: "\<bar>of_int (predicted_quantity res) - q\<bar> \<le> 1 / 2"
    using q(3) round_half_even_near by simp
  have d: "confidence res = Fin (4 / 5)"
    if "case metrics model1 of None \<Rightarrow> True | Some ms \<Rightarrow> map_of ms ''r2_score'' = None"
    using confidence_of_default [OF that] c by simp
  from n p q a confidence_of_range [OF c] c d show ?thesis by blast
qed

theorem predict_sales_bounded_witness:
  "fst (predict_sales example_env example_db trained_model Map.empty example_request)
     = Inr \<lparr>res_product_id = 5, res_product_name = ''Gumbo Mix'', predicted_quantity = 0,
            confidence = Fin (9 / 10), res_timestamp = 1000\<rparr>
   \<and> confidence_of (metrics (snd (predict_sales example_env example_db trained_model
         Map.empty example_request))) = Inr (Fin (9 / 10))"
proof -
  let ?res = "\<lparr>res_product_id = 5, res_product_name = ''Gumbo Mix'', predicted_quantity = 0,
            confidence = Fin (9 / 10), res_timestamp = 1000\<rparr>"
  have e: "fst (predict_sales example_env example_db trained_model Map.empty example_request)
     = Inr ?res"
    by code_simp
  then have h: "predict_sales example_env example_db trained_model Map.empty example_request
     = (Inr ?res, snd (predict_sales example_env example_db trained_model Map.empty
          example_request))"
    by (metis prod.collapse)
  from predict_sales_bounded [OF h] e show ?thesis by simp
qed

section \<open>The customer and the prediction\<close>

lemma map_of_dict_set: "map_of (dict_set k v d) c = (if c = k then Some v else map_of d c)"
  by (induction d) auto

lemma customer_features_cases:
  "customer_features env db cid d = d
   \<or> (\<exists>v. customer_features env db cid d = dict_set ''customer_country'' v d)"
  by (auto simp: customer_features_def split: option.splits sum.splits)

lemma reconcile_customer_features:
  assumes "''customer_country'' \<notin> set feats"
  shows "reconcile feats (customer_features env db cid d) = reconcile feats d"
proof -
  have "reconciled_value (customer_features env db cid d) c = reconciled_value d c"
    if "c \<in> set feats" for c
  proof -
    from that assms have "c \<noteq> ''customer_country''" by blast
    then show ?thesis
      using customer_features_cases [of env db cid d]
      by (auto simp: reconciled_value_def map_of_dict_set)
  qed
  then show ?thesis by (simp add: reconcile_eq)
qed

lemma prepare_prediction_features_customer:
  "prepare_prediction_features env db pid date cid qty
     = map_option (customer_features env db cid)
         (prepare_prediction_features env db pid date None qty)"
  by (simp add: prepare_prediction_features_def customer_features_def Let_def
      split: sum.splits option.splits prod.splits)

lemma predict_customer_features:
  assumes "model self = Some p" and "features self = Some feats"
    and "''customer_country'' \<notin> set feats"
  shows "predict path self fs (customer_features env db cid d) = predict path self fs d"
  using assms by (simp add: predict_def reconcile_customer_features)

lemma predict_sales_customer:
  assumes "model self = Some p" and "features self = Some feats"
    and "''customer_country'' \<notin> set feats"
  shows "predict_sales env db self fs (req\<lparr>req_customer_id := cid\<rparr>)
           = predict_sales env db self fs req"
proof -
  have "predict_sales env db self fs (req\<lparr>req_customer_id := c\<rparr>)
          = predict_sales env db self fs (req\<lparr>req_customer_id := None\<rparr>)" for c
    using assms
    by (cases req)
      (simp add: predict_sales_def Let_def predict_customer_features
        prepare_prediction_features_customer [of env db _ _ c]
        split: sum.splits option.splits
        cong: sum.case_cong option.case_cong prod.case_cong)
  from this [of cid] this [of "req_customer_id req"] show ?thesis by simp
qed

lemma feature_cols_names:
  assumes "f \<in> set (feature_cols md)"
  shows "f \<in> set base_features \<or> startswith f ''category_'' \<or> startswith f ''supplier_''"
  using assms by (auto simp: feature_cols_def)

lemma customer_country_not_feature: "''customer_country'' \<notin> set (feature_cols md)"
proof
  assume "''customer_country'' \<in> set (feature_cols md)"
  from feature_cols_names [OF this] show False
    by (simp add: base_features_def startswith_def)
qed

lemma prepare_training_data_columns:
  assumes "prepare_training_data env db = Some (X, y)"
  shows "t_columns X = feature_cols (get_monthly_sales_summary env db None None)"
  using assms by (auto simp: prepare_training_data_def Let_def split: if_splits)

text \<open>
  Claim C10. For a holder that \<open>train\<close> has just filled, the schema's names are the
  five base names and names that start with \<open>category_\<close> or \<open>supplier_\<close>, so
  \<open>customer_country\<close>, the only thing the customer adds to the request's features, is
  not among them; reconciliation drops it, and the endpoint's whole answer is the same
  for any two requests that differ in the customer only.
\<close>

theorem prediction_independent_of_customer:
  assumes "train env0 db0 self0 fs0 t test_size random_state = (Inr (Metrics m), self, fs1)"
  shows "(\<exists>feats. features self = Some feats
            \<and> (\<forall>f \<in> set feats. f \<in> set base_features \<or> startswith f ''category_''
                  \<or> startswith f ''supplier_'')
            \<and> ''customer_country'' \<notin> set feats)
       \<and> predict_sales env db self fs (req\<lparr>req_customer_id := cid\<rparr>)
           = predict_sales env db self fs req"
proof -
  from train_returns_metrics [OF assms] obtain X y reg f where
    p: "prepare_training_data env0 db0 = Some (X, y)"
    and fe: "features self = Some (t_columns X)"
    and mo: "model self = Some (Fitted reg f)"
    by blast
  let ?md = "get_monthly_sales_summary env0 db0 None None"
  have c: "t_columns X = feature_cols ?md"
    using p by (rule prepare_training_data_columns)
  have n: "''customer_country'' \<notin> set (t_columns X)"
    unfolding c by (rule customer_country_not_feature)
  have a: "\<forall>f \<in> set (t_columns X). f \<in> set base_features \<or> startswith f ''category_''
                  \<or> startswith f ''supplier_''"
    unfolding c using feature_cols_names by blast
  from predict_sales_customer [OF mo fe n] fe a n show ?thesis by blast
qed

theorem prediction_independent_of_customer_witness:
  "train example_env example_db init Map.empty ''linear'' (1 / 5) 42
     = (Inr (Metrics example_metrics), trained_model,
        [MODEL_PATH example_env \<mapsto> Pickle trained_artifact])
   \<and> req_customer_id example_request = Some ''VINET''
   \<and> predict_sales example_env example_db trained_model Map.empty
        (example_request\<lparr>req_customer_id := None\<rparr>)
       = predict_sales example_env example_db trained_model Map.empty example_request"
  using example_training_run
    prediction_independent_of_customer [OF example_training_run,
      where env = example_env and db = example_db and fs = Map.empty
        and req = example_request and cid = None]
  by (simp add: example_request_def)

section \<open>Cleaning a numeric column\<close>

lemma beyond_3_std_sqrt:
  assumes "0 \<le> var"
  shows "beyond_3_std mu var x
           \<longleftrightarrow> 3 * sqrt (real_of_rat var) < \<bar>real_of_rat x - real_of_rat mu\<bar>"
proof -
  let ?d = "real_of_rat x - real_of_rat mu"
  let ?s = "3 * sqrt (real_of_rat var)"
  have v: "0 \<le> real_of_rat var" using assms by (simp add: zero_le_of_rat_iff)
  then have s0: "0 \<le> ?s" by simp
  have sq: "?s\<^sup>2 = 9 * real_of_rat var"
    using v by (simp add: power_mult_distrib)
  have "beyond_3_std mu var x \<longleftrightarrow> real_of_rat (9 * var) < real_of_rat ((x - mu)\<^sup>2)"
    by (simp only: beyond_3_std_def of_rat_less)
  also have "\<dots> \<longleftrightarrow> ?s\<^sup>2 < \<bar>?d\<bar>\<^sup>2"
    using v by (simp add: power_mult_distrib of_rat_mult of_rat_diff of_rat_power)
  also have "\<dots> \<longleftrightarrow> ?s < \<bar>?d\<bar>"
  proof
    assume "?s\<^sup>2 < \<bar>?d\<bar>\<^sup>2"
    then show "?s < \<bar>?d\<bar>" by (rule power2_less_imp_less) simp
  next
    assume "?s < \<bar>?d\<bar>"
    then show "?s\<^sup>2 < \<bar>?d\<bar>\<^sup>2" using s0 by (rule power_strict_mono) simp
  qed
  finally show ?thesis .
qed

lemma sum_list_map_insort:
  fixes f :: "rat \<Rightarrow> rat" and x :: rat
  shows "sum_list (map f (insort x xs)) = f x + sum_list (map f xs)"
  by (induction xs) (auto simp: algebra_simps)

lemma sum_list_map_sort:
  fixes f :: "rat \<Rightarrow> rat" and xs :: "rat list"
  shows "sum_list (map f (sort xs)) = sum_list (map f xs)"
  by (induction xs) (simp_all add: sum_list_map_insort)

lemma sum_list_at_least:
  fixes f :: "rat \<Rightarrow> rat"
  assumes "\<forall>x \<in> set ys. c \<le> f x"
  shows "of_nat (length ys) * c \<le> sum_list (map f ys)"
  using assms by (induction ys) (auto simp: algebra_simps)

lemma sum_squares_nonneg:
  fixes mu :: rat
  shows "0 \<le> sum_list (map (\<lambda>x. (x - mu)\<^sup>2) ys)"
  by (rule sum_list_nonneg) auto

lemma square_le_sum_squares:
  fixes mu :: rat
  assumes "x \<in> set ys"
  shows "(x - mu)\<^sup>2 \<le> sum_list (map (\<lambda>x. (x - mu)\<^sup>2) ys)"
  using assms
proof (induction ys)
  case Nil
  then show ?case by simp
next
  case (Cons y ys)
  have S0: "0 \<le> sum_list (map (\<lambda>x. (x - mu)\<^sup>2) ys)" by (rule sum_squares_nonneg)
  have y0: "0 \<le> (y - mu)\<^sup>2" by simp
  show ?case
  proof (cases "x = y")
    case True
    with S0 show ?thesis by simp
  next
    case False
    with Cons have "(x - mu)\<^sup>2 \<le> sum_list (map (\<lambda>x. (x - mu)\<^sup>2) ys)" by simp
    with y0 show ?thesis by (simp add: add_increasing)
  qed
qed

text \<open>At least half of the values lie on the far side of the median.\<close>

lemma median_deviation:
  assumes "median_of xs = Some m"
  shows "of_nat (length xs) * (m - mu)\<^sup>2 \<le> 2 * sum_list (map (\<lambda>x. (x - mu)\<^sup>2) xs)"
proof -
  define s where "s = sort xs"
  define n where "n = length xs"
  define k where "k = n div 2"
  define f where "f = (\<lambda>x :: rat. (x - mu)\<^sup>2)"
  define S where "S = sum_list (map f xs)"
  have srt: "sorted s" and len: "length s = n"
    by (simp_all add: s_def n_def)
  from assms have n0: "n \<noteq> 0"
    by (auto simp: median_of_def Let_def n_def split: if_splits)
  from assms have m: "m = (if odd n then s ! k else (s ! (k - 1) + s ! k) / 2)"
    by (auto simp: median_of_def Let_def n_def s_def k_def split: if_splits)
  have kn: "k < n" using n0 by (simp add: k_def)
  have mono: "s ! i \<le> s ! j" if "i \<le> j" "j < n" for i j
    using srt that len by (simp add: sorted_nth_mono)
  have hi: "m \<le> s ! i" if "k \<le> i" "i < n" for i
  proof (cases "odd n")
    case True
    with m mono [OF that] show ?thesis by simp
  next
    case False
    then have "0 < k" using n0 by (auto simp: k_def elim: evenE)
    then have "s ! (k - 1) \<le> s ! k" using mono [of "k - 1" k] kn by simp
    moreover have "s ! k \<le> s ! i" using mono [OF that] .
    ultimately show ?thesis using m False by simp
  qed
  have lo: "s ! i \<le> m" if "i < (n + 1) div 2" for i
  proof (cases "odd n")
    case True
    then have "(n + 1) div 2 = k + 1" by (auto simp: k_def elim: oddE)
    with that have "i \<le> k" by simp
    with m True mono [of i k] kn show ?thesis by simp
  next
    case False
    then have "(n + 1) div 2 = k" by (auto simp: k_def elim: evenE)
    with that have i: "i \<le> k - 1" "0 < k" by simp_all
    then have "s ! i \<le> s ! (k - 1)" using mono [of i "k - 1"] kn by simp
    moreover have "s ! (k - 1) \<le> s ! k" using mono [of "k - 1" k] kn by simp
    ultimately show ?thesis using m False by simp
  qed
  have S: "S = sum_list (map f s)"
    by (simp add: S_def s_def sum_list_map_sort)
  have split: "sum_list (map f s) = sum_list (map f (take j s)) + sum_list (map f (drop j s))"
    for j
    by (metis append_take_drop_id map_append sum_list_append)
  have nonneg: "0 \<le> sum_list (map f ys)" for ys
    unfolding f_def by (rule sum_squares_nonneg)
  have sq0: "0 \<le> (m - mu)\<^sup>2" by simp
  have "of_nat n * (m - mu)\<^sup>2 \<le> 2 * S"
  proof (cases "mu \<le> m")
    case True
    have "\<forall>x \<in> set (drop k s). (m - mu)\<^sup>2 \<le> f x"
    proof
      fix x assume "x \<in> set (drop k s)"
      then obtain i where i: "i < length (drop k s)" "x = drop k s ! i"
        by (auto simp: in_set_conv_nth)
      then have "x = s ! (k + i)" and "k + i < n"
        using len kn by simp_all
      then have "m \<le> x" using hi [of "k + i"] by simp
      with True have "0 \<le> m - mu" "m - mu \<le> x - mu" by simp_all
      then show "(m - mu)\<^sup>2 \<le> f x"
        unfolding f_def by (rule power_mono [OF _ _, rotated]) 
    qed
    then have "of_nat (length (drop k s)) * (m - mu)\<^sup>2 \<le> sum_list (map f (drop k s))"
      by (rule sum_list_at_least)
    then have a: "of_nat (n - k) * (m - mu)\<^sup>2 \<le> S"
      using split [of k] nonneg [of "take k s"] S len by simp
    have "n \<le> 2 * (n - k)" by (simp add: k_def)
    then have "(of_nat n :: rat) \<le> 2 * of_nat (n - k)"
      by (metis of_nat_le_iff of_nat_mult of_nat_numeral)
    then have "of_nat n * (m - mu)\<^sup>2 \<le> 2 * of_nat (n - k) * (m - mu)\<^sup>2"
      using sq0 by (rule mult_right_mono)
    with a show ?thesis by simp
  next
    case False
    define j where "j = (n + 1) div 2"
    have jn: "j \<le> n" using n0 by (simp add: j_def)
    have "\<forall>x \<in> set (take j s). (m - mu)\<^sup>2 \<le> f x"
    proof
      fix x assume "x \<in> set (take j s)"
      then obtain i where i: "i < length (take j s)" "x = take j s ! i"
        by (auto simp: in_set_conv_nth)
      then have "x = s ! i" and "i < j"
        using len jn by simp_all
      then have "x \<le> m" using lo [of i] by (simp add: j_def)
      with False have "0 \<le> mu - m" "mu - m \<le> mu - x" by simp_all
      then have "(mu - m)\<^sup>2 \<le> (mu - x)\<^sup>2"
        by (rule power_mono [OF _ _, rotated])
      then show "(m - mu)\<^sup>2 \<le> f x"
        unfolding f_def by (simp add: power2_commute)
    qed
    then have "of_nat (length (take j s)) * (m - mu)\<^sup>2 \<le> sum_list (map f (take j s))"
      by (rule sum_list_at_least)
    then have a: "of_nat j * (m - mu)\<^sup>2 \<le> S"
      using split [of j] nonneg [of "drop j s"] S len jn by simp
    have "n \<le> 2 * j" by (simp add: j_def)
    then have "(of_nat n :: rat) \<le> 2 * of_nat j"
      by (metis of_nat_le_iff of_nat_mult of_nat_numeral)
    then have "of_nat n * (m - mu)\<^sup>2 \<le> 2 * of_nat j * (m - mu)\<^sup>2"
      using sq0 by (rule mult_right_mono)
    with a show ?thesis by simp
  qed
  then show ?thesis by (simp add: n_def S_def f_def)
qed

lemma variance_of_sum:
  assumes "mean_of xs = Some mu" and "variance_of xs = Some var"
  shows "2 \<le> length xs"
    and "sum_list (map (\<lambda>x. (x - mu)\<^sup>2) xs) = var * of_nat (length xs - 1)"
    and "0 \<le> var"
proof -
  from assms show n: "2 \<le> length xs"
    by (auto simp: variance_of_def split: if_splits)
  from assms have v: "var = sum_list (map (\<lambda>x. (x - mu)\<^sup>2) xs) / of_nat (length xs - 1)"
    by (auto simp: variance_of_def split: if_splits)
  from n have p: "(0 :: rat) < of_nat (length xs - 1)" by simp
  then show "sum_list (map (\<lambda>x. (x - mu)\<^sup>2) xs) = var * of_nat (length xs - 1)"
    by (simp add: v)
  show "0 \<le> var"
    unfolding v using p sum_squares_nonneg [of mu xs] by (simp add: divide_nonneg_pos)
qed

lemma median_within_3_std:
  assumes "median_of xs = Some m" and "mean_of xs = Some mu" and "variance_of xs = Some var"
  shows "(m - mu)\<^sup>2 \<le> 9 * var"
proof -
  define n where "n = length xs"
  note v = variance_of_sum [OF assms(2,3), folded n_def]
  have n: "(0 :: rat) < of_nat n" using v(1) by simp
  have "of_nat n * (m - mu)\<^sup>2 \<le> 2 * (var * of_nat (n - 1))"
    using median_deviation [OF assms(1), of mu] v(2) by (simp add: n_def)
  also have "\<dots> \<le> 2 * (var * of_nat n)"
  proof -
    have "(of_nat (n - 1) :: rat) \<le> of_nat n" by simp
    then have "var * of_nat (n - 1) \<le> var * of_nat n"
      using v(3) by (rule mult_left_mono)
    then show ?thesis by simp
  qed
  also have "\<dots> = of_nat n * (2 * var)" by simp
  finally have "(m - mu)\<^sup>2 \<le> 2 * var"
    using n by (simp only: mult_le_cancel_left_pos)
  with v(3) show ?thesis by simp
qed

lemma flat_within_3_std:
  assumes "mean_of xs = Some mu" and "variance_of xs = Some var" and "\<not> 0 < var"
    and "x \<in> set xs"
  shows "(x - mu)\<^sup>2 \<le> 9 * var"
proof -
  note v = variance_of_sum [OF assms(1,2)]
  from v(3) assms(3) have z: "var = 0" by simp
  with v(2) square_le_sum_squares [OF assms(4), of mu] show ?thesis by simp
qed

lemma set_present: "x \<in> set (present col) \<longleftrightarrow> Some x \<in> set col"
  by (induction col) (auto simp: present_def split: option.splits)

lemma clamp_outliers_within:
  assumes "mean P = Some mu" and "variance P = Some var"
    and "Some x \<in> set (clamp_outliers P)"
  shows "(x - mu)\<^sup>2 \<le> 9 * var"
proof -
  have kept: "(x - mu)\<^sup>2 \<le> 9 * var" if "\<not> is_outlier mu var (Some x)"
    using that by (simp add: is_outlier_def beyond_3_std_def)
  have med: "(x - mu)\<^sup>2 \<le> 9 * var" if "median P = Some x"
    using that assms(1,2) median_within_3_std [of "present P" x mu var]
    by (simp add: median_def mean_def variance_def)
  show ?thesis
  proof (cases "0 < var")
    case False
    from assms(3) have "Some x \<in> set P"
      using assms(1,2) False by (simp add: clamp_outliers_def)
    then have "x \<in> set (present P)" by (simp add: set_present)
    with assms(1,2) False show ?thesis
      using flat_within_3_std [of "present P" mu var x]
      by (simp add: mean_def variance_def)
  next
    case True
    show ?thesis
    proof (cases "\<exists>v \<in> set P. is_outlier mu var v")
      case False
      with assms True have "Some x \<in> set P" by (simp add: clamp_outliers_def)
      with False kept show ?thesis by blast
    next
      case o: True
      with assms True obtain v where v: "v \<in> set P"
        and x: "Some x = (if is_outlier mu var v then median P else v)"
        by (auto simp: clamp_outliers_def)
      show ?thesis
      proof (cases "is_outlier mu var v")
        case True
        with x med show ?thesis by simp
      next
        case False
        with x kept show ?thesis by simp
      qed
    qed
  qed
qed

lemma length_clean_numeric: "length (clean_numeric col) = length col"
  by (simp add: clean_numeric_def clamp_outliers_def fix_nonpositive_def fill_missing_def
      fillna_def split: option.splits)

lemma variance_nonneg: "variance P = Some var \<Longrightarrow> 0 \<le> var"
  by (auto simp: variance_def variance_of_def sum_squares_nonneg
      split: option.splits if_splits)


text \<open>The skewed column, step by step.\<close>

lemma skewed_stats:
  "mean skewed_column = Some (28 / 27)" "variance skewed_column = Some (12634 / 1431)"
  "median skewed_column = Some 1"
  by code_simp+

lemma shifted_stats:
  "mean shifted_column = Some (41 / 27)" "variance shifted_column = Some (11542 / 1431)"
  "median shifted_column = Some 1"
  by code_simp+

lemma once_cleaned_stats:
  "mean once_cleaned = Some (7 / 6)" "variance once_cleaned = Some (3 / 2)"
  "median once_cleaned = Some 1"
  by code_simp+

lemma fill_missing_skewed: "fill_missing skewed_column = skewed_column"
  by (simp add: fill_missing_def skewed_column_def)

lemma fix_nonpositive_skewed: "fix_nonpositive skewed_column = shifted_column"
  unfolding fix_nonpositive_def skewed_stats
  by (simp add: skewed_column_def shifted_column_def nonpositive_def)

lemma clamp_outliers_shifted: "clamp_outliers shifted_column = once_cleaned"
  unfolding clamp_outliers_def shifted_stats
  by (simp add: shifted_column_def once_cleaned_def is_outlier_def beyond_3_std_def
      power2_eq_square)

lemma clean_numeric_skewed: "clean_numeric skewed_column = once_cleaned"
  by (simp add: clean_numeric_def fill_missing_skewed fix_nonpositive_skewed
      clamp_outliers_shifted)

lemma fill_missing_once_cleaned: "fill_missing once_cleaned = once_cleaned"
  by (simp add: fill_missing_def once_cleaned_def)

lemma fix_nonpositive_once_cleaned: "fix_nonpositive once_cleaned = once_cleaned"
  by (simp add: fix_nonpositive_def once_cleaned_def nonpositive_def)

lemma clamp_outliers_once_cleaned:
  "clamp_outliers once_cleaned = replicate 26 (Some 1) @ replicate 26 (Some 1) @ [Some 1, Some 1]"
  unfolding clamp_outliers_def once_cleaned_stats
  by (simp add: once_cleaned_def is_outlier_def beyond_3_std_def power2_eq_square)

lemma clean_numeric_once_cleaned:
  "clean_numeric once_cleaned = replicate 26 (Some 1) @ replicate 26 (Some 1) @ [Some 1, Some 1]"
  by (simp add: clean_numeric_def fill_missing_once_cleaned fix_nonpositive_once_cleaned
      clamp_outliers_once_cleaned)


text \<open>
  Claim C8, as stated, fails on the column of 26 zeros, 26 ones, a 10 and a 20: the
  cleaned column keeps the 10, which lies more than three standard deviations from the
  mean of the original column, and cleaning the cleaned column again replaces that 10.
\<close>

theorem cleaning_counterexample:
  "mean skewed_column = Some (28 / 27)
   \<and> variance skewed_column = Some (12634 / 1431)
   \<and> Some 10 \<in> set (clean_numeric skewed_column)
   \<and> beyond_3_std (28 / 27) (12634 / 1431) 10
   \<and> clean_numeric (clean_numeric skewed_column) \<noteq> clean_numeric skewed_column"
proof -
  have "Some 10 \<in> set (clean_numeric skewed_column)"
    by (simp add: clean_numeric_skewed once_cleaned_def)
  moreover have "beyond_3_std (28 / 27) (12634 / 1431) 10"
    by (simp add: beyond_3_std_def power2_eq_square)
  moreover have "clean_numeric (clean_numeric skewed_column) \<noteq> clean_numeric skewed_column"
    unfolding clean_numeric_skewed clean_numeric_once_cleaned
    by (simp add: once_cleaned_def)
  ultimately show ?thesis using skewed_stats by simp
qed

text \<open>
  Claim C8, amended. Cleaning keeps the number of rows, and no cleaned value lies more than
  three standard deviations from the mean the outlier step itself uses: mean and deviation
  of the column after its missing and non-positive values have been replaced.
\<close>

theorem clean_numeric_within_3_std:
  assumes "mean (fix_nonpositive (fill_missing col)) = Some mu"
    and "variance (fix_nonpositive (fill_missing col)) = Some var"
  shows "length (clean_numeric col) = length col
       \<and> (\<forall>x. Some x \<in> set (clean_numeric col) \<longrightarrow>
             \<bar>real_of_rat x - real_of_rat mu\<bar> \<le> 3 * sqrt (real_of_rat var))"
proof -
  have v: "0 \<le> var" using assms(2) by (rule variance_nonneg)
  have "\<bar>real_of_rat x - real_of_rat mu\<bar> \<le> 3 * sqrt (real_of_rat var)"
    if "Some x \<in> set (clean_numeric col)" for x
  proof -
    from that have "(x - mu)\<^sup>2 \<le> 9 * var"
      unfolding clean_numeric_def by (rule clamp_outliers_within [OF assms])
    then have "\<not> beyond_3_std mu var x" by (simp add: beyond_3_std_def)
    then show ?thesis using beyond_3_std_sqrt [OF v, of mu x] by simp
  qed
  then show ?thesis using length_clean_numeric by blast
qed

theorem clean_numeric_within_3_std_witness:
  "mean (fix_nonpositive (fill_missing skewed_column)) = Some (41 / 27)
   \<and> variance (fix_nonpositive (fill_missing skewed_column)) = Some (11542 / 1431)
   \<and> Some 10 \<in> set (clean_numeric skewed_column)
   \<and> length (clean_numeric skewed_column) = length skewed_column
   \<and> \<bar>real_of_rat 10 - real_of_rat (41 / 27)\<bar> \<le> 3 * sqrt (real_of_rat (11542 / 1431))"
proof -
  have m: "mean (fix_nonpositive (fill_missing skewed_column)) = Some (41 / 27)"
    and v: "variance (fix_nonpositive (fill_missing skewed_column)) = Some (11542 / 1431)"
    by (simp_all add: fill_missing_skewed fix_nonpositive_skewed shifted_stats)
  have i: "Some 10 \<in> set (clean_numeric skewed_column)"
    by (simp add: clean_numeric_skewed once_cleaned_def)
  from clean_numeric_within_3_std [OF m v] m v i show ?thesis by blast
qed

end
